theory Spec2Isabelle
  imports Complex_Main
begin

section \<open>Data model of the head runtime\<close>

text \<open>
  The source is \<^verbatim>\<open>jina/peapods/runtimes/head/__init__.py\<close>, class \<^verbatim>\<open>HeadRuntime\<close>.
  Messages, requests and related entities are protobuf wrappers declared elsewhere; only the
  attributes the runtime reads are kept. An optional protobuf field that is not set is
  \<open>None\<close> here, and reading its attribute gives the protobuf default.
\<close>

datatype document = Document (doc_id: string) (payload: string)

record related_entity =
  address :: string
  port :: int
  shard_id :: "int option"

text \<open>\<^verbatim>\<open>relatedEntity.HasField('shard_id')\<close> and the plain attribute read
  \<^verbatim>\<open>relatedEntity.shard_id\<close>, which is the default \<open>0\<close> when the field is not set.\<close>

definition HasField_shard_id :: "related_entity \<Rightarrow> bool" where
  "HasField_shard_id e = (shard_id e \<noteq> None)"

definition shard_id_attr :: "related_entity \<Rightarrow> int" where
  "shard_id_attr e = (case shard_id e of None \<Rightarrow> 0 | Some s \<Rightarrow> s)"

datatype request =
    ControlRequest (command: string) (relatedEntities: "related_entity list")
  | DataRequest (docs: "document list")

record envelope =
  request_type :: string
  request_id :: string

record message =
  envelope :: envelope
  request :: request

datatype polling_type = Polling_ANY | Polling_ALL

text \<open>Exceptions as values. \<open>OtherError\<close> stands for any exception the runtime does not
  name; \<open>AttributeError\<close> is what reading \<^verbatim>\<open>command\<close> or \<^verbatim>\<open>docs\<close> on the wrong
  kind of request raises, \<open>IndexError\<close> what \<^verbatim>\<open>messages[0]\<close> raises on an empty batch.\<close>

datatype exn =
    RpcError
  | RuntimeTerminated
  | RuntimeError string
  | AttributeError
  | IndexError
  | OtherError string

subsection \<open>The connection pool\<close>

text \<open>
  Modelled from the spec: \<^verbatim>\<open>GrpcConnectionPool\<close> (\<^verbatim>\<open>jina/networking.py\<close>) is not among the
  source files. The spec describes its registry as a mapping from a role name
  (\<^verbatim>\<open>uses_before\<close>, \<^verbatim>\<open>worker\<close>, \<^verbatim>\<open>uses_after\<close>) to a set of endpoints, each an address
  with an optional shard identifier; registering an endpoint that is present changes
  nothing, and removing one that is absent does not raise.
\<close>

type_synonym connections = "string \<Rightarrow> (string \<times> int option) set"

definition add_connection :: "connections \<Rightarrow> string \<Rightarrow> string \<Rightarrow> int option \<Rightarrow> connections" where
  "add_connection c pod addr sid = c(pod := insert (addr, sid) (c pod))"

definition remove_connection :: "connections \<Rightarrow> string \<Rightarrow> string \<Rightarrow> int option \<Rightarrow> connections" where
  "remove_connection c pod addr sid = c(pod := c pod - {(addr, sid)})"

text \<open>
  The dispatch primitives of the pool are the environment of the runtime: what the remote
  stages answer is not decided by this code. \<open>send_messages\<close> gives the outcomes of the
  dispatched tasks in the order \<^verbatim>\<open>asyncio.as_completed\<close> yields them (completion order);
  \<open>send_message_sync\<close> is the blocking call the readiness probe uses.
\<close>

record net =
  send_messages_once :: "connections \<Rightarrow> message list \<Rightarrow> string \<Rightarrow> exn + message"
  send_messages :: "connections \<Rightarrow> message list \<Rightarrow> string \<Rightarrow> polling_type \<Rightarrow> (exn + message) list"

subsection \<open>The runtime object\<close>

record head_runtime =
  name :: string
  uses_before_address :: "string option"
  uses_after_address :: "string option"
  polling :: polling_type
  connection_pool :: connections
  is_cancel :: bool

text \<open>Python truthiness of an optional address: \<^verbatim>\<open>None\<close> and the empty string are false.\<close>

definition truthy :: "string option \<Rightarrow> bool" where
  "truthy a = (case a of None \<Rightarrow> False | Some s \<Rightarrow> s \<noteq> [])"

subsection \<open>Formatting an integer, as an f-string does\<close>

fun digits :: "nat \<Rightarrow> string" where
  "digits n = (if n < 10 then [char_of (48 + n)] else digits (n div 10) @ [char_of (48 + n mod 10)])"

declare digits.simps [simp del]

definition str_int :: "int \<Rightarrow> string" where
  "str_int i = (if i < 0 then CHR ''-'' # digits (nat (- i)) else digits (nat i))"

definition connection_string :: "related_entity \<Rightarrow> string" where
  "connection_string e = address e @ '':'' @ str_int (port e)"

section \<open>Control plane\<close>

text \<open>
  \<^verbatim>\<open>_handle_control_request\<close>. The two \<^verbatim>\<open>for\<close> loops over the related entities are folds
  over the pool. \<^verbatim>\<open>ACTIVATE\<close> passes the shard id only when the field is set;
  \<^verbatim>\<open>DEACTIVATE\<close> passes the attribute as read. Logging is left out.
\<close>

definition activate_entity :: "related_entity \<Rightarrow> connections \<Rightarrow> connections" where
  "activate_entity e c =
     add_connection c ''worker'' (connection_string e)
       (if HasField_shard_id e then Some (shard_id_attr e) else None)"

definition deactivate_entity :: "related_entity \<Rightarrow> connections \<Rightarrow> connections" where
  "deactivate_entity e c =
     remove_connection c ''worker'' (connection_string e) (Some (shard_id_attr e))"

definition handle_control_request :: "head_runtime \<Rightarrow> message \<Rightarrow> (exn + message) \<times> head_runtime" where
  "handle_control_request h msg =
     (case request msg of
        DataRequest ds \<Rightarrow> (Inl AttributeError, h)
      | ControlRequest cmd ents \<Rightarrow>
          if cmd = ''TERMINATE'' then (Inl RuntimeTerminated, h)
          else if cmd = ''ACTIVATE'' then
            (Inr msg, h\<lparr>connection_pool := fold activate_entity ents (connection_pool h)\<rparr>)
          else if cmd = ''DEACTIVATE'' then
            (Inr msg, h\<lparr>connection_pool := fold deactivate_entity ents (connection_pool h)\<rparr>)
          else (Inr msg, h))"

text \<open>The loop of \<^verbatim>\<open>_handle_messages\<close> over a control batch; \<open>last_response\<close> starts as
  \<^verbatim>\<open>None\<close>, and an exception leaves the loop with the pool as it is at that point.\<close>

fun control_loop :: "head_runtime \<Rightarrow> message option \<Rightarrow> message list \<Rightarrow> (exn + message option) \<times> head_runtime" where
  "control_loop h last_response [] = (Inr last_response, h)"
| "control_loop h last_response (m # ms) =
     (case handle_control_request h m of
        (Inl e, h') \<Rightarrow> (Inl e, h')
      | (Inr r, h') \<Rightarrow> control_loop h' (Some r) ms)"

section \<open>Data plane\<close>

text \<open>The list comprehension over \<^verbatim>\<open>asyncio.as_completed\<close>: each task is awaited in
  completion order, and the first failed one raises.\<close>

fun await_all :: "(exn + message) list \<Rightarrow> exn + message list" where
  "await_all [] = Inr []"
| "await_all (Inl e # rs) = Inl e"
| "await_all (Inr m # rs) = (case await_all rs of Inl e \<Rightarrow> Inl e | Inr ms \<Rightarrow> Inr (m # ms))"

text \<open>\<^verbatim>\<open>getattr(r, 'docs')\<close>, and the comprehension
  \<^verbatim>\<open>[d for r in ... for d in getattr(r, 'docs')]\<close> over a list of requests.\<close>

definition getattr_docs :: "request \<Rightarrow> exn + document list" where
  "getattr_docs r = (case r of DataRequest ds \<Rightarrow> Inr ds | ControlRequest cmd ents \<Rightarrow> Inl AttributeError)"

fun all_docs :: "request list \<Rightarrow> exn + document list" where
  "all_docs [] = Inr []"
| "all_docs (r # rs) =
     (case getattr_docs r of
        Inl e \<Rightarrow> Inl e
      | Inr ds \<Rightarrow> (case all_docs rs of Inl e \<Rightarrow> Inl e | Inr rest \<Rightarrow> Inr (ds @ rest)))"

text \<open>
  Modelled from the spec: \<^verbatim>\<open>DataRequestHandler.replace_docs\<close> is not among the source files. The
  spec says the response keeps the envelope and metadata of the message it is given, with its
  document sequence replaced by the combined sequence.
\<close>

definition replace_docs :: "message \<Rightarrow> document list \<Rightarrow> message" where
  "replace_docs msg ds = msg\<lparr>request := DataRequest ds\<rparr>"

text \<open>
  \<^verbatim>\<open>_handle_data_requests\<close> in two parts: \<open>fan_out\<close> is the pre-stage and the collection of
  \<open>worker_results\<close> (up to the list comprehension), \<open>merge_results\<close> the branch on
  \<open>uses_after_address\<close> and on the number of results that follows it.
\<close>

definition fan_out :: "net \<Rightarrow> head_runtime \<Rightarrow> message list \<Rightarrow> exn + message list" where
  "fan_out n h messages =
     (case (if truthy (uses_before_address h)
            then (case send_messages_once n (connection_pool h) messages ''uses_before'' of
                    Inl e \<Rightarrow> Inl e
                  | Inr m \<Rightarrow> Inr [m])
            else Inr messages) of
        Inl e \<Rightarrow> Inl e
      | Inr messages' \<Rightarrow>
          await_all (send_messages n (connection_pool h) messages' ''worker'' (polling h)))"

definition merge_results :: "net \<Rightarrow> head_runtime \<Rightarrow> message list \<Rightarrow> exn + message" where
  "merge_results n h worker_results =
     (if truthy (uses_after_address h) then
        send_messages_once n (connection_pool h) worker_results ''uses_after''
      else if length worker_results > 1 then
        (let partial_requests = map request worker_results in
         case all_docs (rev partial_requests) of
           Inl e \<Rightarrow> Inl e
         | Inr result \<Rightarrow> Inr (replace_docs (worker_results ! 0) result))
      else if length worker_results = 1 then Inr (worker_results ! 0)
      else Inl (RuntimeError (''Head '' @ name h @
                  '' did not receive a response when sending message to worker peas'')))"

definition handle_data_requests :: "net \<Rightarrow> head_runtime \<Rightarrow> message list \<Rightarrow> exn + message" where
  "handle_data_requests n h messages =
     (case fan_out n h messages of
        Inl e \<Rightarrow> Inl e
      | Inr worker_results \<Rightarrow> merge_results n h worker_results)"

section \<open>Service loop\<close>

text \<open>\<^verbatim>\<open>_handle_messages\<close>: the type of the first envelope decides the path;
  \<^verbatim>\<open>messages[0]\<close> raises on an empty batch.\<close>

definition handle_messages :: "net \<Rightarrow> head_runtime \<Rightarrow> message list \<Rightarrow> (exn + message option) \<times> head_runtime" where
  "handle_messages n h messages =
     (case messages of
        [] \<Rightarrow> (Inl IndexError, h)
      | m0 # rest \<Rightarrow>
          if request_type (envelope m0) \<noteq> ''DataRequest'' then control_loop h None messages
          else (case handle_data_requests n h messages of
                  Inl e \<Rightarrow> (Inl e, h)
                | Inr r \<Rightarrow> (Inr (Some r), h)))"

text \<open>
  Modelled from the spec: \<^verbatim>\<open>HeadRuntime.cancel\<close> comes from the base class
  \<^verbatim>\<open>AsyncNewLoopRuntime\<close>, which is not among the source files. The spec says that
  termination sets the node's running/cancelled flag.
\<close>

definition cancel :: "head_runtime \<Rightarrow> head_runtime" where
  "cancel h = h\<lparr>is_cancel := True\<rparr>"

text \<open>\<^verbatim>\<open>Call\<close>: \<^verbatim>\<open>RuntimeTerminated\<close> is caught, the runtime is cancelled and the function
  falls off its end, returning \<^verbatim>\<open>None\<close>; any other exception is logged and raised again.\<close>

definition Call :: "net \<Rightarrow> head_runtime \<Rightarrow> message list \<Rightarrow> (exn + message option) \<times> head_runtime" where
  "Call n h messages =
     (case handle_messages n h messages of
        (Inl e, h') \<Rightarrow> if e = RuntimeTerminated then (Inr None, cancel h') else (Inl e, h')
      | (Inr r, h') \<Rightarrow> (Inr r, h'))"

section \<open>Readiness prober\<close>

text \<open>
  Modelled from the spec: the class \<^verbatim>\<open>ControlMessage\<close> is not among the source files. The spec
  says a control message is an envelope of control type with a command.
\<close>

definition ControlMessage :: "string \<Rightarrow> message" where
  "ControlMessage cmd =
     \<lparr>envelope = \<lparr>request_type = ''ControlRequest'', request_id = []\<rparr>,
      request = ControlRequest cmd []\<rparr>"

text \<open>\<^verbatim>\<open>is_ready\<close>. The transport call \<^verbatim>\<open>GrpcConnectionPool.send_message_sync\<close> is a
  parameter; only \<^verbatim>\<open>RpcError\<close> is caught.\<close>

definition is_ready :: "(message \<Rightarrow> string \<Rightarrow> exn + message) \<Rightarrow> string \<Rightarrow> exn + bool" where
  "is_ready send_message_sync ctrl_address =
     (case send_message_sync (ControlMessage ''STATUS'') ctrl_address of
        Inl e \<Rightarrow> if e = RpcError then Inr False else Inl e
      | Inr reply \<Rightarrow> Inr True)"

text \<open>
  The timeout is a Python float, a finite binary64 value given here by the real number it
  stands for. The product \<^verbatim>\<open>1000000000 * timeout\<close> is a float multiplication: the exact
  product rounded to the nearest binary64 value, ties to the even significand, with 53
  significant bits down to the least exponent, where the spacing stays \<open>pow2 (- 1074)\<close>, and
  an infinity from \<open>pow2 1024\<close> on. \<open>float_exponent\<close> finds the binade of a value by a search
  from exponent \<open>0\<close>, which the exponent range of binary64 bounds.
\<close>

datatype pyfloat = Finite real | PosInf | NegInf

definition pow2 :: "int \<Rightarrow> real" where
  "pow2 e = (if e < 0 then 1 / 2 ^ nat (- e) else 2 ^ nat e)"

primrec exponent_search :: "nat \<Rightarrow> int \<Rightarrow> real \<Rightarrow> int" where
  "exponent_search 0 e r = e"
| "exponent_search (Suc n) e r =
     (if pow2 (e + 1) \<le> r then exponent_search n (e + 1) r
      else if r < pow2 e \<and> - 1022 < e then exponent_search n (e - 1) r
      else e)"

definition float_exponent :: "real \<Rightarrow> int" where
  "float_exponent r = exponent_search 1024 0 \<bar>r\<bar>"

definition round_half_even :: "real \<Rightarrow> int" where
  "round_half_even q =
     (let f = \<lfloor>q\<rfloor> in
      if q - real_of_int f < 1 / 2 then f
      else if 1 / 2 < q - real_of_int f then f + 1
      else if even f then f else f + 1)"

definition round_float :: "real \<Rightarrow> pyfloat" where
  "round_float r =
     (let quantum = pow2 (max (float_exponent r - 52) (- 1074));
          y = real_of_int (round_half_even (r / quantum)) * quantum
      in if pow2 1024 \<le> y then PosInf else if y \<le> - pow2 1024 then NegInf else Finite y)"

definition float_mul :: "real \<Rightarrow> real \<Rightarrow> pyfloat" where
  "float_mul a b = round_float (a * b)"

text \<open>Python compares an integer with a float by their exact values.\<close>

definition int_lt_float :: "int \<Rightarrow> pyfloat \<Rightarrow> bool" where
  "int_lt_float i f = (case f of Finite r \<Rightarrow> real_of_int i < r | PosInf \<Rightarrow> True | NegInf \<Rightarrow> False)"

text \<open>
  \<^verbatim>\<open>wait_for_ready_or_shutdown\<close> reads the clock, the shutdown event and the transport.
  These are the world it runs in: the state of the event and the outcome of a probe are
  functions of the clock reading (in nanoseconds) at which they are observed, and a probe
  started at \<open>t\<close> takes \<open>sync_ns t\<close> nanoseconds. \<^verbatim>\<open>time.sleep(0.1)\<close> advances the clock by
  \<open>100000000\<close> nanoseconds; everything else takes no time.
\<close>

record world =
  is_set :: "int \<Rightarrow> bool"
  send_message_sync :: "int \<Rightarrow> message \<Rightarrow> string \<Rightarrow> exn + message"
  sync_ns :: "int \<Rightarrow> nat"

text \<open>The \<^verbatim>\<open>while\<close> loop; \<open>t\<close> is the clock at the loop test. The result is the value
  returned (or the exception raised) with the clock at that moment; \<open>None\<close> is a loop that
  never ends.\<close>

partial_function (option) poll_loop ::
  "world \<Rightarrow> string \<Rightarrow> pyfloat option \<Rightarrow> int \<Rightarrow> int \<Rightarrow> ((exn + bool) \<times> int) option" where
  "poll_loop w ctrl_address timeout_ns now t =
     (if (case timeout_ns of None \<Rightarrow> True | Some tn \<Rightarrow> int_lt_float (t - now) tn) then
        (if is_set w t then Some (Inr True, t)
         else (case is_ready (send_message_sync w t) ctrl_address of
                 Inl e \<Rightarrow> Some (Inl e, t + int (sync_ns w t))
               | Inr ready \<Rightarrow>
                   if ready then Some (Inr True, t + int (sync_ns w t))
                   else poll_loop w ctrl_address timeout_ns now (t + int (sync_ns w t) + 100000000)))
      else Some (Inr False, t))"

text \<open>Python truthiness of the optional timeout: \<^verbatim>\<open>None\<close> and zero are false.\<close>

definition truthy_timeout :: "real option \<Rightarrow> bool" where
  "truthy_timeout timeout = (case timeout of None \<Rightarrow> False | Some x \<Rightarrow> x \<noteq> 0)"

definition wait_for_ready_or_shutdown ::
  "world \<Rightarrow> real option \<Rightarrow> string \<Rightarrow> int \<Rightarrow> ((exn + bool) \<times> int) option" where
  "wait_for_ready_or_shutdown w timeout ctrl_address t0 =
     (let timeout_ns = (if truthy_timeout timeout then Some (float_mul 1000000000 (the timeout))
                        else None);
          now = t0
      in poll_loop w ctrl_address timeout_ns now t0)"

section \<open>Notions used to state the properties\<close>

text \<open>The effect of one control message on the runtime, and a control batch's messages that
  carry a command other than \<^verbatim>\<open>TERMINATE\<close>.\<close>

definition apply_control :: "head_runtime \<Rightarrow> message \<Rightarrow> head_runtime" where
  "apply_control h m = snd (handle_control_request h m)"

definition is_command :: "message \<Rightarrow> bool" where
  "is_command m =
     (case request m of ControlRequest cmd ents \<Rightarrow> cmd \<noteq> ''TERMINATE'' | DataRequest ds \<Rightarrow> False)"

text \<open>A message that carries a data request, and its documents.\<close>

definition is_data :: "message \<Rightarrow> bool" where
  "is_data m = (case request m of DataRequest ds \<Rightarrow> True | ControlRequest cmd ents \<Rightarrow> False)"

definition docs_of :: "message \<Rightarrow> document list" where
  "docs_of m = (case request m of DataRequest ds \<Rightarrow> ds | ControlRequest cmd ents \<Rightarrow> [])"

text \<open>The outcome of the probe sent at clock reading \<open>t\<close>: it fails when the transport raises
  \<^verbatim>\<open>RpcError\<close>, it succeeds when the transport returns a reply.\<close>

definition probe_fails :: "world \<Rightarrow> string \<Rightarrow> int \<Rightarrow> bool" where
  "probe_fails w c t = (send_message_sync w t (ControlMessage ''STATUS'') c = Inl RpcError)"

definition probe_succeeds :: "world \<Rightarrow> string \<Rightarrow> int \<Rightarrow> bool" where
  "probe_succeeds w c t =
     (case send_message_sync w t (ControlMessage ''STATUS'') c of Inr r \<Rightarrow> True | Inl e \<Rightarrow> False)"

text \<open>The clock reading at the \<open>k\<close>-th poll when every earlier poll sent a probe and slept:
  the next poll starts 100 ms after the previous probe has come back.\<close>

fun poll_time :: "world \<Rightarrow> int \<Rightarrow> nat \<Rightarrow> int" where
  "poll_time w t0 0 = t0"
| "poll_time w t0 (Suc k) = poll_time w t0 k + int (sync_ns w (poll_time w t0 k)) + 100000000"

definition in_time :: "pyfloat option \<Rightarrow> int \<Rightarrow> int \<Rightarrow> bool" where
  "in_time timeout_ns now t =
     (case timeout_ns of None \<Rightarrow> True | Some tn \<Rightarrow> int_lt_float (t - now) tn)"

subsection \<open>Concrete runtimes, messages and environments\<close>

definition head0 :: head_runtime where
  "head0 = \<lparr>name = ''head0'', uses_before_address = None, uses_after_address = None,
            polling = Polling_ALL, connection_pool = (\<lambda>pod. {}), is_cancel = False\<rparr>"

definition head_after :: head_runtime where
  "head_after = head0\<lparr>uses_after_address := Some ''10.0.0.9:9000''\<rparr>"

text \<open>A network whose fan-out completes with the given outcomes, in that order, and whose
  single-destination call gives the given reply.\<close>

definition fixed_net :: "(exn + message) list \<Rightarrow> (exn + message) \<Rightarrow> net" where
  "fixed_net outcomes reply =
     \<lparr>send_messages_once = (\<lambda>c ms pod. reply), send_messages = (\<lambda>c ms pod p. outcomes)\<rparr>"

definition DataMessage :: "string \<Rightarrow> document list \<Rightarrow> message" where
  "DataMessage rid ds =
     \<lparr>envelope = \<lparr>request_type = ''DataRequest'', request_id = rid\<rparr>, request = DataRequest ds\<rparr>"

definition CommandMessage :: "string \<Rightarrow> related_entity list \<Rightarrow> message" where
  "CommandMessage cmd ents =
     \<lparr>envelope = \<lparr>request_type = ''ControlRequest'', request_id = []\<rparr>,
      request = ControlRequest cmd ents\<rparr>"

definition d1 :: document where "d1 = Document ''d1'' ''a''"
definition d2 :: document where "d2 = Document ''d2'' ''b''"
definition d3 :: document where "d3 = Document ''d3'' ''c''"

definition query :: message where "query = DataMessage ''q'' []"
definition reply_w1 :: message where "reply_w1 = DataMessage ''w1'' [d1, d2]"
definition reply_w2 :: message where "reply_w2 = DataMessage ''w2'' [d3]"
definition reply_after :: message where "reply_after = DataMessage ''after'' [d2]"

definition entity0 :: related_entity where
  "entity0 = \<lparr>address = ''10.0.0.1'', port = 8080, shard_id = Some 0\<rparr>"

definition entity1 :: related_entity where
  "entity1 = \<lparr>address = ''10.0.0.2'', port = 8081, shard_id = None\<rparr>"

definition head_registered :: head_runtime where
  "head_registered = head0\<lparr>connection_pool := (\<lambda>pod. {})(''worker'' := {(connection_string entity0, Some 0)})\<rparr>"

text \<open>A transport that raises an exception that is not an \<^verbatim>\<open>RpcError\<close>.\<close>

definition raising_transport :: "message \<Rightarrow> string \<Rightarrow> exn + message" where
  "raising_transport m a = Inl (OtherError ''ValueError'')"

text \<open>A world in which the shutdown event is never set, probes take no time and fail until
  the clock reads 250 ms; and one in which they fail forever.\<close>

definition late_world :: world where
  "late_world = \<lparr>is_set = (\<lambda>t. False),
                 send_message_sync = (\<lambda>t m a. if t < 250000000 then Inl RpcError else Inr m),
                 sync_ns = (\<lambda>t. 0)\<rparr>"

definition dead_world :: world where
  "dead_world = \<lparr>is_set = (\<lambda>t. False), send_message_sync = (\<lambda>t m a. Inl RpcError),
                 sync_ns = (\<lambda>t. 0)\<rparr>"

text \<open>The binary64 values nearest to \<open>0.1\<close> and to \<open>8.3\<close>.\<close>

definition float_0_1 :: real where
  "float_0_1 = 3602879701896397 / 36028797018963968"

definition float_8_3 :: real where
  "float_8_3 = 2336242306698445 / 281474976710656"

section \<open>Control plane: properties\<close>

lemma handle_control_request_command:
  "is_command m \<Longrightarrow> handle_control_request h m = (Inr m, apply_control h m)"
  by (simp add: is_command_def apply_control_def handle_control_request_def split: request.splits)

lemma handle_control_request_terminate:
  "request t = ControlRequest ''TERMINATE'' ents \<Longrightarrow>
   handle_control_request h t = (Inl RuntimeTerminated, h)"
  by (simp add: handle_control_request_def)

lemma control_loop_commands:
  "list_all is_command ms \<Longrightarrow>
   control_loop h r ms = (Inr (if ms = [] then r else Some (last ms)), foldl apply_control h ms)"
  by (induction ms arbitrary: h r) (simp_all add: handle_control_request_command)

lemma control_loop_terminate:
  "list_all is_command pre \<Longrightarrow> request t = ControlRequest ''TERMINATE'' ents \<Longrightarrow>
   control_loop h r (pre @ t # post) = (Inl RuntimeTerminated, foldl apply_control h pre)"
  by (induction pre arbitrary: h r)
     (simp_all add: handle_control_request_command handle_control_request_terminate)

lemma handle_messages_control:
  assumes "messages \<noteq> []" and "request_type (envelope (messages ! 0)) \<noteq> ''DataRequest''"
  shows "handle_messages n h messages = control_loop h None messages"
proof -
  obtain m0 rest where ms: "messages = m0 # rest"
    using assms(1) by (cases messages) simp_all
  show ?thesis
    using assms(2) by (simp add: handle_messages_def ms del: control_loop.simps)
qed

lemma is_command_CommandMessage [simp]:
  "is_command (CommandMessage cmd ents) = (cmd \<noteq> ''TERMINATE'')"
  by (simp add: is_command_def CommandMessage_def)

lemma request_CommandMessage [simp]:
  "request (CommandMessage cmd ents) = ControlRequest cmd ents"
  "request_type (envelope (CommandMessage cmd ents)) = ''ControlRequest''"
  by (simp_all add: CommandMessage_def)

text \<open>
  C2 as stated fails: in the batch \<^verbatim>\<open>[TERMINATE, ACTIVATE(entity0)]\<close> the second command is
  never applied and \<^verbatim>\<open>Call\<close> returns no message, while the claim promises the pool with
  both commands applied and the result of the last message.
\<close>

theorem control_batch_terminate_first_counterexample:
  "Call (fixed_net [] (Inl RpcError)) head0
        [CommandMessage ''TERMINATE'' [], CommandMessage ''ACTIVATE'' [entity0]]
     = (Inr None, cancel head0)
   \<and> connection_pool (cancel head0) ''worker'' = {}
   \<and> connection_pool (foldl apply_control head0
        [CommandMessage ''TERMINATE'' [], CommandMessage ''ACTIVATE'' [entity0]]) ''worker''
       = {(connection_string entity0, Some 0)}"
  by (simp add: Call_def handle_messages_def handle_control_request_def cancel_def head0_def
        apply_control_def CommandMessage_def activate_entity_def add_connection_def
        HasField_shard_id_def shard_id_attr_def entity0_def)

text \<open>
  C2, amended: for every control batch (a non-empty list of messages whose first envelope is
  not of Data type) in which every message carries a command other than \<^verbatim>\<open>TERMINATE\<close>, the
  commands are applied to the runtime in input order with cumulative effects (the final state
  is the left fold of the single-message effects), and the message returned is the result of
  processing the last message, which is that message itself; earlier results are discarded.
\<close>

theorem control_batch_in_order_last_returned:
  assumes "messages \<noteq> []" and "request_type (envelope (messages ! 0)) \<noteq> ''DataRequest''"
    and "list_all is_command messages"
  shows "Call n h messages = (Inr (Some (last messages)), foldl apply_control h messages)"
  using assms(1,3) handle_messages_control[OF assms(1,2), of n h]
  by (simp add: Call_def control_loop_commands)

theorem control_batch_in_order_last_returned_witness:
  "Call (fixed_net [] (Inl RpcError)) head0
        [CommandMessage ''ACTIVATE'' [entity0], CommandMessage ''STATUS'' []]
     = (Inr (Some (last [CommandMessage ''ACTIVATE'' [entity0], CommandMessage ''STATUS'' []])),
        foldl apply_control head0
          [CommandMessage ''ACTIVATE'' [entity0], CommandMessage ''STATUS'' []])"
  by (rule control_batch_in_order_last_returned) simp_all

text \<open>
  C5 as stated fails: when the endpoint of \<open>entity0\<close> is registered before the
  \<^verbatim>\<open>ACTIVATE\<close>, registering it again changes nothing and the \<^verbatim>\<open>DEACTIVATE\<close> removes it, so
  the worker set after the round trip is not the one before it.
\<close>

theorem activate_deactivate_registered_counterexample:
  "connection_pool (snd (Call (fixed_net [] (Inl RpcError)) head_registered
        [CommandMessage ''ACTIVATE'' [entity0], CommandMessage ''DEACTIVATE'' [entity0]])) ''worker''
     = {}
   \<and> connection_pool head_registered ''worker'' = {(connection_string entity0, Some 0)}"
  by (simp add: Call_def handle_messages_def handle_control_request_def head_registered_def
        head0_def CommandMessage_def activate_entity_def deactivate_entity_def add_connection_def
        remove_connection_def HasField_shard_id_def shard_id_attr_def entity0_def)

text \<open>
  C5, amended: for every entity that carries a shard id and whose endpoint is not registered
  as a worker in the starting pool, \<^verbatim>\<open>ACTIVATE(e)\<close> followed by \<^verbatim>\<open>DEACTIVATE(e)\<close> leaves the
  runtime, and with it the worker set, as it was before the \<^verbatim>\<open>ACTIVATE\<close>.
\<close>

theorem activate_deactivate_roundtrip:
  assumes "shard_id e = Some s"
    and "(connection_string e, Some s) \<notin> connection_pool h ''worker''"
    and "request a = ControlRequest ''ACTIVATE'' [e]"
    and "request d = ControlRequest ''DEACTIVATE'' [e]"
    and "request_type (envelope a) \<noteq> ''DataRequest''"
  shows "Call n h [a, d] = (Inr (Some d), h)"
proof -
  have "deactivate_entity e (activate_entity e (connection_pool h)) = connection_pool h"
    using assms(1,2)
    by (auto simp: deactivate_entity_def activate_entity_def add_connection_def
          remove_connection_def HasField_shard_id_def shard_id_attr_def fun_eq_iff)
  then show ?thesis
    using assms(3,4,5) by (simp add: Call_def handle_messages_def handle_control_request_def)
qed

theorem activate_deactivate_roundtrip_witness:
  "Call (fixed_net [] (Inl RpcError)) head0
        [CommandMessage ''ACTIVATE'' [entity0], CommandMessage ''DEACTIVATE'' [entity0]]
     = (Inr (Some (CommandMessage ''DEACTIVATE'' [entity0])), head0)"
  by (rule activate_deactivate_roundtrip[where s = 0])
     (simp_all add: entity0_def head0_def)

text \<open>
  The case of an entity without a shard id is left out of the amended C5: \<^verbatim>\<open>ACTIVATE\<close>
  registers the endpoint with no shard id, \<^verbatim>\<open>DEACTIVATE\<close> asks to remove it with shard id
  \<open>0\<close> (the attribute read without the \<^verbatim>\<open>HasField\<close> test), so the registration stays.
\<close>

lemma deactivate_without_shard_id_keeps_registration:
  "connection_pool (snd (Call (fixed_net [] (Inl RpcError)) head0
        [CommandMessage ''ACTIVATE'' [entity1], CommandMessage ''DEACTIVATE'' [entity1]])) ''worker''
     = {(connection_string entity1, None)}"
  by (simp add: Call_def handle_messages_def handle_control_request_def
        head0_def CommandMessage_def activate_entity_def deactivate_entity_def add_connection_def
        remove_connection_def HasField_shard_id_def shard_id_attr_def entity1_def)

text \<open>
  C6: a control message whose command is none of \<^verbatim>\<open>TERMINATE\<close>, \<^verbatim>\<open>ACTIVATE\<close>,
  \<^verbatim>\<open>DEACTIVATE\<close> is processed without any change to the runtime (so the connection pool is
  not modified) and without failure: the handler returns the message, and a call with that
  message alone returns it normally.
\<close>

theorem unknown_command_noop:
  assumes "cmd \<notin> {''TERMINATE'', ''ACTIVATE'', ''DEACTIVATE''}"
    and "request msg = ControlRequest cmd ents"
    and "request_type (envelope msg) \<noteq> ''DataRequest''"
  shows "handle_control_request h msg = (Inr msg, h) \<and> Call n h [msg] = (Inr (Some msg), h)"
  using assms by (simp add: handle_control_request_def Call_def handle_messages_def)

theorem unknown_command_noop_witness:
  "handle_control_request head_registered (CommandMessage ''STATUS'' [entity0])
     = (Inr (CommandMessage ''STATUS'' [entity0]), head_registered)
   \<and> Call (fixed_net [] (Inl RpcError)) head_registered [CommandMessage ''STATUS'' [entity0]]
     = (Inr (Some (CommandMessage ''STATUS'' [entity0])), head_registered)"
  by (rule unknown_command_noop[where cmd = "''STATUS''" and ents = "[entity0]"]) simp_all

text \<open>
  C9: in a control batch with a \<^verbatim>\<open>TERMINATE\<close> command, whatever follows the first
  \<^verbatim>\<open>TERMINATE\<close> is not processed: the call gives no response (\<^verbatim>\<open>None\<close>), cancels the
  runtime, and leaves the connection pool as the commands before the \<^verbatim>\<open>TERMINATE\<close> made it,
  whatever the later messages are.
\<close>

theorem terminate_aborts_batch:
  assumes "list_all is_command pre" and "request t = ControlRequest ''TERMINATE'' ents"
    and "request_type (envelope ((pre @ t # post) ! 0)) \<noteq> ''DataRequest''"
  shows "Call n h (pre @ t # post) = (Inr None, cancel (foldl apply_control h pre))
       \<and> connection_pool (snd (Call n h (pre @ t # post)))
           = connection_pool (foldl apply_control h pre)"
proof -
  have "handle_messages n h (pre @ t # post) = control_loop h None (pre @ t # post)"
    using assms(3) by (intro handle_messages_control) simp_all
  then have "Call n h (pre @ t # post) = (Inr None, cancel (foldl apply_control h pre))"
    using assms(1,2) by (simp add: Call_def control_loop_terminate)
  then show ?thesis by (simp add: cancel_def)
qed

theorem terminate_aborts_batch_witness:
  "Call (fixed_net [] (Inl RpcError)) head0
        ([CommandMessage ''ACTIVATE'' [entity0]] @ CommandMessage ''TERMINATE'' []
           # [CommandMessage ''DEACTIVATE'' [entity0], CommandMessage ''ACTIVATE'' [entity1]])
     = (Inr None, cancel (foldl apply_control head0 [CommandMessage ''ACTIVATE'' [entity0]]))
   \<and> connection_pool (snd (Call (fixed_net [] (Inl RpcError)) head0
        ([CommandMessage ''ACTIVATE'' [entity0]] @ CommandMessage ''TERMINATE'' []
           # [CommandMessage ''DEACTIVATE'' [entity0], CommandMessage ''ACTIVATE'' [entity1]])))
     = connection_pool (foldl apply_control head0 [CommandMessage ''ACTIVATE'' [entity0]])"
  by (rule terminate_aborts_batch[where ents = "[]"]) simp_all

section \<open>Data plane: properties\<close>

lemma all_docs_data:
  "list_all is_data R \<Longrightarrow> all_docs (map request R) = Inr (concat (map docs_of R))"
  by (induction R) (auto simp: is_data_def docs_of_def getattr_docs_def split: request.splits)

lemma Call_data:
  assumes "messages \<noteq> []" and "request_type (envelope (messages ! 0)) = ''DataRequest''"
    and "fan_out n h messages = Inr R"
  shows "Call n h messages =
     (case merge_results n h R of
        Inl e \<Rightarrow> if e = RuntimeTerminated then (Inr None, cancel h) else (Inl e, h)
      | Inr r \<Rightarrow> (Inr (Some r), h))"
  using assms
  by (cases messages)
     (simp_all add: Call_def handle_messages_def handle_data_requests_def split: sum.splits)

lemma fan_out_fixed_net:
  "fan_out (fixed_net (map Inr R) reply) head0 ms = Inr R"
  "fan_out (fixed_net (map Inr R) reply) head_after ms = Inr R"
  by (induction R)
     (simp_all add: fan_out_def fixed_net_def head0_def head_after_def truthy_def)

lemma data_batch_query:
  "[query] \<noteq> []" "request_type (envelope ([query] ! 0)) = ''DataRequest''"
  by (simp_all add: query_def DataMessage_def)

lemma truthy_heads:
  "\<not> truthy (uses_after_address head0)" "truthy (uses_after_address head_after)"
  by (simp_all add: head0_def head_after_def truthy_def)

lemma is_data_DataMessage [simp]: "is_data (DataMessage rid ds)"
  by (simp add: is_data_def DataMessage_def)

text \<open>
  C1: for a data batch whose fan-out collects the results \<open>R\<close>, more than one and each a data
  request, with no \<^verbatim>\<open>uses_after\<close> address, the call returns a message whose envelope is the
  envelope of \<open>R[0]\<close>, the first result in completion order, and whose documents are the
  documents of the results concatenated in the reverse of completion order.
\<close>

theorem local_merge_reversed_concat:
  assumes "messages \<noteq> []" and "request_type (envelope (messages ! 0)) = ''DataRequest''"
    and "\<not> truthy (uses_after_address h)" and "fan_out n h messages = Inr R"
    and "length R > 1" and "list_all is_data R"
  shows "\<exists>r. Call n h messages = (Inr (Some r), h) \<and> envelope r = envelope (R ! 0)
           \<and> request r = DataRequest (concat (map docs_of (rev R)))"
proof -
  have "list_all is_data (rev R)"
    using assms(6) by (simp add: list_all_iff)
  then have "all_docs (rev (map request R)) = Inr (concat (map docs_of (rev R)))"
    using all_docs_data[of "rev R"] by (simp add: rev_map)
  then have "merge_results n h R = Inr (replace_docs (R ! 0) (concat (map docs_of (rev R))))"
    using assms(3,5) by (simp add: merge_results_def)
  then show ?thesis
    using Call_data[OF assms(1,2,4)] by (simp add: replace_docs_def)
qed

theorem local_merge_reversed_concat_witness:
  "\<exists>r. Call (fixed_net (map Inr [reply_w2, reply_w1]) (Inl RpcError)) head0 [query]
          = (Inr (Some r), head0)
      \<and> envelope r = \<lparr>request_type = ''DataRequest'', request_id = ''w2''\<rparr>
      \<and> request r = DataRequest [d1, d2, d3]"
proof -
  have "\<exists>r. Call (fixed_net (map Inr [reply_w2, reply_w1]) (Inl RpcError)) head0 [query]
          = (Inr (Some r), head0)
      \<and> envelope r = envelope ([reply_w2, reply_w1] ! 0)
      \<and> request r = DataRequest (concat (map docs_of (rev [reply_w2, reply_w1])))"
    by (rule local_merge_reversed_concat[OF data_batch_query truthy_heads(1) fan_out_fixed_net(1)])
       (simp_all add: reply_w1_def reply_w2_def)
  then show ?thesis
    by (simp add: reply_w1_def reply_w2_def DataMessage_def docs_of_def)
qed

text \<open>
  C3 as stated fails: with a \<^verbatim>\<open>uses_after\<close> address configured, a fan-out that collects no
  result does not fail the call; the empty list of results is sent to \<^verbatim>\<open>uses_after\<close> and
  its reply is returned.
\<close>

theorem no_results_uses_after_counterexample:
  "fan_out (fixed_net (map Inr []) (Inr reply_after)) head_after [query] = Inr []
   \<and> Call (fixed_net (map Inr []) (Inr reply_after)) head_after [query]
       = (Inr (Some reply_after), head_after)"
proof -
  have f: "fan_out (fixed_net (map Inr []) (Inr reply_after)) head_after [query] = Inr []"
    by (rule fan_out_fixed_net)
  have "merge_results (fixed_net (map Inr []) (Inr reply_after)) head_after [] = Inr reply_after"
    by (simp add: merge_results_def fixed_net_def truthy_heads)
  then show ?thesis
    using f Call_data[OF data_batch_query f] by simp
qed

text \<open>
  C3, amended: for a data batch whose fan-out collects no result, with no \<^verbatim>\<open>uses_after\<close>
  address configured, the call fails with a \<^verbatim>\<open>RuntimeError\<close> whose message names the head,
  and no response is returned.
\<close>

theorem no_results_fatal:
  assumes "messages \<noteq> []" and "request_type (envelope (messages ! 0)) = ''DataRequest''"
    and "\<not> truthy (uses_after_address h)" and "fan_out n h messages = Inr []"
  shows "Call n h messages =
     (Inl (RuntimeError (''Head '' @ name h @
        '' did not receive a response when sending message to worker peas'')), h)"
  using Call_data[OF assms(1,2,4)] assms(3) by (simp add: merge_results_def)

theorem no_results_fatal_witness:
  "Call (fixed_net (map Inr []) (Inr reply_after)) head0 [query] =
     (Inl (RuntimeError (''Head '' @ name head0 @
        '' did not receive a response when sending message to worker peas'')), head0)"
  by (rule no_results_fatal[OF data_batch_query truthy_heads(1) fan_out_fixed_net(1)])

text \<open>
  C4 as stated fails: with a \<^verbatim>\<open>uses_after\<close> address configured, a single worker result is
  not returned as it is; it is sent to \<^verbatim>\<open>uses_after\<close>, whose reply is returned.
\<close>

theorem single_result_uses_after_counterexample:
  "fan_out (fixed_net (map Inr [reply_w1]) (Inr reply_after)) head_after [query] = Inr [reply_w1]
   \<and> Call (fixed_net (map Inr [reply_w1]) (Inr reply_after)) head_after [query]
       = (Inr (Some reply_after), head_after)
   \<and> reply_after \<noteq> reply_w1"
proof -
  have f: "fan_out (fixed_net (map Inr [reply_w1]) (Inr reply_after)) head_after [query] = Inr [reply_w1]"
    by (rule fan_out_fixed_net)
  have "merge_results (fixed_net (map Inr [reply_w1]) (Inr reply_after)) head_after [reply_w1]
          = Inr reply_after"
    by (simp add: merge_results_def fixed_net_def truthy_heads)
  moreover have "reply_after \<noteq> reply_w1"
    by (simp add: reply_after_def reply_w1_def DataMessage_def)
  ultimately show ?thesis
    using f Call_data[OF data_batch_query f] by simp
qed

text \<open>
  C4, amended: for a data batch whose fan-out collects exactly one result, with no
  \<^verbatim>\<open>uses_after\<close> address configured, the call returns that result unchanged.
\<close>

theorem single_result_passthrough:
  assumes "messages \<noteq> []" and "request_type (envelope (messages ! 0)) = ''DataRequest''"
    and "\<not> truthy (uses_after_address h)" and "fan_out n h messages = Inr [r]"
  shows "Call n h messages = (Inr (Some r), h)"
  using Call_data[OF assms(1,2,4)] assms(3) by (simp add: merge_results_def)

theorem single_result_passthrough_witness:
  "Call (fixed_net (map Inr [reply_w1]) (Inr reply_after)) head0 [query]
     = (Inr (Some reply_w1), head0)"
  by (rule single_result_passthrough[OF data_batch_query truthy_heads(1) fan_out_fixed_net(1)])

section \<open>Readiness prober: properties\<close>

lemma poll_time_shift:
  "poll_time w (t + int (sync_ns w t) + 100000000) k = poll_time w t (Suc k)"
  by (induction k) simp_all

lemma is_ready_fails: "probe_fails w c t \<Longrightarrow> is_ready (send_message_sync w t) c = Inr False"
  by (simp add: probe_fails_def is_ready_def)

lemma is_ready_succeeds: "probe_succeeds w c t \<Longrightarrow> is_ready (send_message_sync w t) c = Inr True"
  by (simp add: probe_succeeds_def is_ready_def split: sum.splits)

lemma poll_loop_step:
  "in_time tn now t \<Longrightarrow> \<not> is_set w t \<Longrightarrow> probe_fails w c t \<Longrightarrow>
   poll_loop w c tn now t = poll_loop w c tn now (t + int (sync_ns w t) + 100000000)"
  by (subst poll_loop.simps) (simp add: in_time_def is_ready_fails)

lemma poll_loop_true:
  "in_time tn now t \<Longrightarrow> is_set w t \<or> probe_succeeds w c t \<Longrightarrow>
   poll_loop w c tn now t = Some (Inr True, if is_set w t then t else t + int (sync_ns w t))"
  by (subst poll_loop.simps) (auto simp: in_time_def is_ready_succeeds)

lemma poll_loop_false:
  "\<not> in_time tn now t \<Longrightarrow> poll_loop w c tn now t = Some (Inr False, t)"
  by (subst poll_loop.simps) (simp add: in_time_def)

lemma poll_loop_skip:
  "(\<And>j. j < k \<Longrightarrow> in_time tn now (poll_time w t j) \<and> \<not> is_set w (poll_time w t j)
       \<and> probe_fails w c (poll_time w t j)) \<Longrightarrow>
   poll_loop w c tn now t = poll_loop w c tn now (poll_time w t k)"
proof (induction k arbitrary: t)
  case 0
  then show ?case by simp
next
  case (Suc k)
  have h0: "in_time tn now t \<and> \<not> is_set w t \<and> probe_fails w c t"
    using Suc.prems[of 0] by simp
  let ?t' = "t + int (sync_ns w t) + 100000000"
  have "poll_loop w c tn now ?t' = poll_loop w c tn now (poll_time w ?t' k)"
  proof (rule Suc.IH)
    fix j assume "j < k"
    then show "in_time tn now (poll_time w ?t' j) \<and> \<not> is_set w (poll_time w ?t' j)
                 \<and> probe_fails w c (poll_time w ?t' j)"
      using Suc.prems[of "Suc j"] by (simp only: poll_time_shift) simp
  qed
  then show ?case
    using h0 poll_loop_step[of tn now t w c] by (simp only: poll_time_shift) simp
qed

lemma poll_loop_never_false_aux:
  "poll_loop w c tn now t = Some y \<Longrightarrow> tn = None \<longrightarrow> fst y \<noteq> Inr False"
proof (induction w c tn now t y rule: poll_loop.raw_induct[rotated 1, consumes 1])
  case (1 f w c tn now t y)
  show ?case
  proof
    assume "tn = None"
    then show "fst y \<noteq> Inr False"
      using 1 by (auto split: if_splits sum.splits)
  qed
qed

lemma poll_loop_never_false:
  "poll_loop w c None now t = Some y \<Longrightarrow> fst y \<noteq> Inr False"
  using poll_loop_never_false_aux[of w c None now t y] by simp

lemma poll_loop_forever_aux:
  "poll_loop w c tn now t = Some y \<Longrightarrow>
   tn = None \<longrightarrow> (\<exists>k. is_set w (poll_time w t k) \<or> \<not> probe_fails w c (poll_time w t k))"
proof (induction w c tn now t y rule: poll_loop.raw_induct[rotated 1, consumes 1])
  case (1 f w c tn now t y)
  show ?case
  proof
    assume tn: "tn = None"
    show "\<exists>k. is_set w (poll_time w t k) \<or> \<not> probe_fails w c (poll_time w t k)"
    proof (cases "is_set w t \<or> \<not> probe_fails w c t")
      case True
      then have "is_set w (poll_time w t 0) \<or> \<not> probe_fails w c (poll_time w t 0)" by simp
      then show ?thesis by blast
    next
      case False
      then have "f w c tn now (t + int (sync_ns w t) + 100000000) = Some y"
        using 1(2) tn by (simp add: is_ready_fails)
      from 1(1)[OF this] tn obtain k where
        "is_set w (poll_time w (t + int (sync_ns w t) + 100000000) k)
           \<or> \<not> probe_fails w c (poll_time w (t + int (sync_ns w t) + 100000000) k)"
        by blast
      then have "is_set w (poll_time w t (Suc k)) \<or> \<not> probe_fails w c (poll_time w t (Suc k))"
        by (simp only: poll_time_shift)
      then show ?thesis by blast
    qed
  qed
qed

lemma poll_loop_forever:
  assumes "\<And>k. \<not> is_set w (poll_time w t k) \<and> probe_fails w c (poll_time w t k)"
  shows "poll_loop w c None now t = None"
proof (cases "poll_loop w c None now t")
  case None
  then show ?thesis .
next
  case (Some y)
  then show ?thesis using poll_loop_forever_aux[of w c None now t y] assms by blast
qed

lemma wait_None: "wait_for_ready_or_shutdown w None c t0 = poll_loop w c None t0 t0"
  by (simp add: wait_for_ready_or_shutdown_def truthy_timeout_def)

lemma wait_zero: "wait_for_ready_or_shutdown w (Some 0) c t0 = poll_loop w c None t0 t0"
  by (simp add: wait_for_ready_or_shutdown_def truthy_timeout_def)

lemma wait_Some:
  "x \<noteq> 0 \<Longrightarrow> wait_for_ready_or_shutdown w (Some x) c t0
     = poll_loop w c (Some (float_mul 1000000000 x)) t0 t0"
  by (simp add: wait_for_ready_or_shutdown_def truthy_timeout_def)

lemma dead_world_polls:
  "\<not> is_set dead_world (poll_time dead_world t k) \<and> probe_fails dead_world c (poll_time dead_world t k)"
  by (simp add: dead_world_def probe_fails_def)

lemma poll_time_no_cost:
  "(\<And>t. sync_ns w t = 0) \<Longrightarrow> poll_time w t0 k = t0 + 100000000 * int k"
  by (induction k) simp_all

lemma poll_time_dead_world: "poll_time dead_world t0 k = t0 + 100000000 * int k"
  by (rule poll_time_no_cost) (simp add: dead_world_def)

lemma poll_time_late_world: "poll_time late_world t0 k = t0 + 100000000 * int k"
  by (rule poll_time_no_cost) (simp add: late_world_def)

text \<open>
  C7 as stated fails: when the transport raises an exception that is not an \<^verbatim>\<open>RpcError\<close>,
  \<^verbatim>\<open>is_ready\<close> does not return \<^verbatim>\<open>False\<close>; the exception reaches the caller.
\<close>

theorem is_ready_other_exception_counterexample:
  "is_ready raising_transport ''0.0.0.0:8080'' = Inl (OtherError ''ValueError'')"
  by (simp add: is_ready_def raising_transport_def)

text \<open>
  C7, amended: for every control address, \<^verbatim>\<open>is_ready\<close> returns \<^verbatim>\<open>False\<close> exactly when the
  \<^verbatim>\<open>STATUS\<close> probe raises \<^verbatim>\<open>RpcError\<close>, returns \<^verbatim>\<open>True\<close> exactly when the probe returns a
  reply, and raises exactly the exceptions of the probe that are not \<^verbatim>\<open>RpcError\<close>.
\<close>

theorem is_ready_result:
  "(is_ready send ctrl_address = Inr False
      \<longleftrightarrow> send (ControlMessage ''STATUS'') ctrl_address = Inl RpcError)
   \<and> (is_ready send ctrl_address = Inr True
      \<longleftrightarrow> (\<exists>reply. send (ControlMessage ''STATUS'') ctrl_address = Inr reply))
   \<and> (\<forall>e. is_ready send ctrl_address = Inl e
      \<longleftrightarrow> e \<noteq> RpcError \<and> send (ControlMessage ''STATUS'') ctrl_address = Inl e)"
  by (auto simp: is_ready_def split: sum.splits)

theorem is_ready_result_witness:
  "is_ready (\<lambda>m a. Inl RpcError) ''0.0.0.0:8080'' = Inr False
   \<and> is_ready (\<lambda>m a. Inr m) ''0.0.0.0:8080'' = Inr True"
  using is_ready_result[of "\<lambda>m a. Inl RpcError" "''0.0.0.0:8080''"]
    is_ready_result[of "\<lambda>m a. Inr m" "''0.0.0.0:8080''"]
  by blast

lemma exponent_search_step:
  "0 < n \<Longrightarrow> exponent_search n e r =
     (if pow2 (e + 1) \<le> r then exponent_search (n - 1) (e + 1) r
      else if r < pow2 e \<and> - 1022 < e then exponent_search (n - 1) (e - 1) r
      else e)"
  by (cases n) simp_all

text \<open>The two constants are binary64 values: rounding leaves them as they are.\<close>

lemma float_0_1_exact: "round_float float_0_1 = Finite float_0_1"
  by (simp add: round_float_def float_exponent_def exponent_search_step
        pow2_def round_half_even_def float_0_1_def)

lemma float_8_3_exact: "round_float float_8_3 = Finite float_8_3"
  by (simp add: round_float_def float_exponent_def exponent_search_step
        pow2_def round_half_even_def float_8_3_def)

lemma float_mul_1: "float_mul 1000000000 1 = Finite 1000000000"
  by (simp add: float_mul_def round_float_def float_exponent_def exponent_search_step
        pow2_def round_half_even_def)

lemma float_mul_0_1: "float_mul 1000000000 float_0_1 = Finite 100000000"
  by (simp add: float_mul_def round_float_def float_exponent_def exponent_search_step
        pow2_def round_half_even_def float_0_1_def)

lemma float_mul_8_3: "float_mul 1000000000 float_8_3 = Finite (8703180800000001 / 1048576)"
  by (simp add: float_mul_def round_float_def float_exponent_def exponent_search_step
        pow2_def round_half_even_def float_8_3_def)

text \<open>
  C8 as stated fails: with a timeout of \<open>0\<close> the timeout has elapsed at once, yet the
  function does not return \<^verbatim>\<open>False\<close>; in a world where the event is never set and every
  probe fails it polls forever.
\<close>

theorem wait_zero_timeout_counterexample:
  "wait_for_ready_or_shutdown dead_world (Some 0) ''0.0.0.0:8080'' 0 = None"
  unfolding wait_zero by (rule poll_loop_forever) (rule dead_world_polls)

text \<open>
  C8, amended to a timeout that is not zero. The polls are at the clock readings
  \<open>poll_time\<close>: the interval is the sleep of 100 ms between the end of a poll and the start
  of the next, so that polls whose probes take no time are exactly 100 ms apart. The timeout has elapsed at a loop test when the
  nanoseconds since the start are not below the float product \<^verbatim>\<open>1000000000 * timeout\<close>, the
  comparison being Python's. Let the polls before the \<open>k\<close>-th find the event not set and the
  probe failing. If the timeout has not elapsed at the loop tests up to the \<open>k\<close>-th and the
  \<open>k\<close>-th poll finds the event set or the probe succeeding, the function returns \<^verbatim>\<open>True\<close>
  at that poll. If the timeout has not elapsed at the loop tests before the \<open>k\<close>-th and has
  elapsed at the \<open>k\<close>-th, it returns \<^verbatim>\<open>False\<close> there. With no timeout it returns
  \<^verbatim>\<open>True\<close> at the first poll that finds the event set or the probe succeeding, and it
  never returns \<^verbatim>\<open>False\<close>.
\<close>

theorem wait_for_ready_or_shutdown_polls:
  assumes "\<forall>j<k. \<not> is_set w (poll_time w t0 j) \<and> probe_fails w c (poll_time w t0 j)"
  shows "(x \<noteq> 0
            \<and> (\<forall>j\<le>k. int_lt_float (poll_time w t0 j - t0) (float_mul 1000000000 x))
            \<and> (is_set w (poll_time w t0 k) \<or> probe_succeeds w c (poll_time w t0 k))
          \<longrightarrow> wait_for_ready_or_shutdown w (Some x) c t0
                = Some (Inr True, if is_set w (poll_time w t0 k) then poll_time w t0 k
                                  else poll_time w t0 k + int (sync_ns w (poll_time w t0 k))))
       \<and> (x \<noteq> 0
            \<and> (\<forall>j<k. int_lt_float (poll_time w t0 j - t0) (float_mul 1000000000 x))
            \<and> \<not> int_lt_float (poll_time w t0 k - t0) (float_mul 1000000000 x)
          \<longrightarrow> wait_for_ready_or_shutdown w (Some x) c t0 = Some (Inr False, poll_time w t0 k))
       \<and> (is_set w (poll_time w t0 k) \<or> probe_succeeds w c (poll_time w t0 k)
          \<longrightarrow> wait_for_ready_or_shutdown w None c t0
                = Some (Inr True, if is_set w (poll_time w t0 k) then poll_time w t0 k
                                  else poll_time w t0 k + int (sync_ns w (poll_time w t0 k))))
       \<and> (\<forall>y. wait_for_ready_or_shutdown w None c t0 = Some y \<longrightarrow> fst y \<noteq> Inr False)
       \<and> poll_time w t0 (Suc k) - (poll_time w t0 k + int (sync_ns w (poll_time w t0 k)))
            = 100000000
       \<and> ((\<forall>t. sync_ns w t = 0) \<longrightarrow> poll_time w t0 k = t0 + 100000000 * int k)"
proof (intro conjI impI allI)
  let ?tn = "float_mul 1000000000 x"
  assume a: "x \<noteq> 0
            \<and> (\<forall>j\<le>k. int_lt_float (poll_time w t0 j - t0) ?tn)
            \<and> (is_set w (poll_time w t0 k) \<or> probe_succeeds w c (poll_time w t0 k))"
  have "poll_loop w c (Some ?tn) t0 t0 = poll_loop w c (Some ?tn) t0 (poll_time w t0 k)"
    using a assms by (intro poll_loop_skip) (simp add: in_time_def)
  moreover have "in_time (Some ?tn) t0 (poll_time w t0 k)"
    using a by (simp add: in_time_def)
  ultimately show "wait_for_ready_or_shutdown w (Some x) c t0
                = Some (Inr True, if is_set w (poll_time w t0 k) then poll_time w t0 k
                                  else poll_time w t0 k + int (sync_ns w (poll_time w t0 k)))"
    using a by (simp add: wait_Some poll_loop_true)
next
  let ?tn = "float_mul 1000000000 x"
  assume a: "x \<noteq> 0
            \<and> (\<forall>j<k. int_lt_float (poll_time w t0 j - t0) ?tn)
            \<and> \<not> int_lt_float (poll_time w t0 k - t0) ?tn"
  have "poll_loop w c (Some ?tn) t0 t0 = poll_loop w c (Some ?tn) t0 (poll_time w t0 k)"
    using a assms by (intro poll_loop_skip) (simp add: in_time_def)
  moreover have "\<not> in_time (Some ?tn) t0 (poll_time w t0 k)"
    using a by (simp add: in_time_def)
  ultimately show "wait_for_ready_or_shutdown w (Some x) c t0 = Some (Inr False, poll_time w t0 k)"
    using a by (simp add: wait_Some poll_loop_false)
next
  assume a: "is_set w (poll_time w t0 k) \<or> probe_succeeds w c (poll_time w t0 k)"
  have "poll_loop w c None t0 t0 = poll_loop w c None t0 (poll_time w t0 k)"
    using assms by (intro poll_loop_skip) (simp add: in_time_def)
  then show "wait_for_ready_or_shutdown w None c t0
                = Some (Inr True, if is_set w (poll_time w t0 k) then poll_time w t0 k
                                  else poll_time w t0 k + int (sync_ns w (poll_time w t0 k)))"
    using a by (simp add: wait_None poll_loop_true in_time_def)
next
  fix y assume "wait_for_ready_or_shutdown w None c t0 = Some y"
  then show "fst y \<noteq> Inr False"
    by (simp add: wait_None poll_loop_never_false)
next
  show "poll_time w t0 (Suc k) - (poll_time w t0 k + int (sync_ns w (poll_time w t0 k)))
          = 100000000"
    by simp
next
  assume "\<forall>t. sync_ns w t = 0"
  then show "poll_time w t0 k = t0 + 100000000 * int k"
    by (intro poll_time_no_cost) simp
qed

text \<open>
  The theorem at work, in worlds where probes take no time. A probe that succeeds from
  250 ms on is found at the poll at 300 ms under a timeout of one second. Under the float
  \<open>0.1\<close>, whose product is \<open>100000000.0\<close>, failing probes give \<^verbatim>\<open>False\<close> at the loop test at
  100 ms. Under the float \<open>8.3\<close>, whose product is just above \<open>8300000000\<close>, the poll at
  8.3 s is still made and \<^verbatim>\<open>False\<close> comes at 8.4 s.
\<close>

theorem wait_for_ready_or_shutdown_polls_witness:
  "wait_for_ready_or_shutdown late_world (Some 1) ''0.0.0.0:8080'' 0 = Some (Inr True, 300000000)
   \<and> wait_for_ready_or_shutdown dead_world (Some float_0_1) ''0.0.0.0:8080'' 0
       = Some (Inr False, 100000000)
   \<and> wait_for_ready_or_shutdown dead_world (Some float_8_3) ''0.0.0.0:8080'' 0
       = Some (Inr False, 8400000000)"
proof -
  have neg: "\<forall>j<3. \<not> is_set late_world (poll_time late_world 0 j)
               \<and> probe_fails late_world ''0.0.0.0:8080'' (poll_time late_world 0 j)"
  proof (intro allI impI)
    fix j :: nat assume "j < 3"
    then have "poll_time late_world 0 j < 250000000"
      by (simp add: poll_time_late_world)
    then show "\<not> is_set late_world (poll_time late_world 0 j)
               \<and> probe_fails late_world ''0.0.0.0:8080'' (poll_time late_world 0 j)"
      by (simp add: late_world_def probe_fails_def)
  qed
  have time: "\<forall>j\<le>3. int_lt_float (poll_time late_world 0 j - 0) (float_mul 1000000000 1)"
  proof (intro allI impI)
    fix j :: nat assume "j \<le> 3"
    then have "100000000 * int j \<le> 300000000" by simp
    then show "int_lt_float (poll_time late_world 0 j - 0) (float_mul 1000000000 1)"
      by (simp add: poll_time_late_world float_mul_1 int_lt_float_def)
  qed
  have "\<not> poll_time late_world 0 3 < 250000000"
    by (simp add: poll_time_late_world)
  then have pos: "probe_succeeds late_world ''0.0.0.0:8080'' (poll_time late_world 0 3)"
    by (simp add: late_world_def probe_succeeds_def)
  have "wait_for_ready_or_shutdown late_world (Some 1) ''0.0.0.0:8080'' 0
          = Some (Inr True, if is_set late_world (poll_time late_world 0 3) then poll_time late_world 0 3
               else poll_time late_world 0 3 + int (sync_ns late_world (poll_time late_world 0 3)))"
    using wait_for_ready_or_shutdown_polls[OF neg, of 1] time pos by simp
  moreover have "is_set late_world (poll_time late_world 0 3) = False"
    "sync_ns late_world (poll_time late_world 0 3) = 0"
    by (simp_all add: late_world_def)
  ultimately have first: "wait_for_ready_or_shutdown late_world (Some 1) ''0.0.0.0:8080'' 0
          = Some (Inr True, 300000000)"
    by (simp add: poll_time_late_world)
  have neg1: "\<forall>j<1. \<not> is_set dead_world (poll_time dead_world 0 j)
               \<and> probe_fails dead_world ''0.0.0.0:8080'' (poll_time dead_world 0 j)"
    using dead_world_polls by blast
  have nz1: "float_0_1 \<noteq> 0" by (simp add: float_0_1_def)
  have time1: "\<forall>j<1. int_lt_float (poll_time dead_world 0 j - 0) (float_mul 1000000000 float_0_1)"
    by (simp add: float_mul_0_1 int_lt_float_def)
  have late1: "\<not> int_lt_float (poll_time dead_world 0 1 - 0) (float_mul 1000000000 float_0_1)"
    by (simp add: poll_time_dead_world float_mul_0_1 int_lt_float_def del: poll_time.simps)
  have "wait_for_ready_or_shutdown dead_world (Some float_0_1) ''0.0.0.0:8080'' 0
          = Some (Inr False, poll_time dead_world 0 1)"
    using wait_for_ready_or_shutdown_polls[OF neg1, of float_0_1] nz1 time1 late1 by blast
  then have second: "wait_for_ready_or_shutdown dead_world (Some float_0_1) ''0.0.0.0:8080'' 0
          = Some (Inr False, 100000000)"
    by (simp add: poll_time_dead_world del: poll_time.simps)
  have neg2: "\<forall>j<84. \<not> is_set dead_world (poll_time dead_world 0 j)
               \<and> probe_fails dead_world ''0.0.0.0:8080'' (poll_time dead_world 0 j)"
    using dead_world_polls by blast
  have nz2: "float_8_3 \<noteq> 0" by (simp add: float_8_3_def)
  have time2: "\<forall>j<84. int_lt_float (poll_time dead_world 0 j - 0) (float_mul 1000000000 float_8_3)"
  proof (intro allI impI)
    fix j :: nat assume "j < 84"
    then have "100000000 * int j \<le> 8300000000" by simp
    then have "real_of_int (100000000 * int j) \<le> 8300000000" by linarith
    then show "int_lt_float (poll_time dead_world 0 j - 0) (float_mul 1000000000 float_8_3)"
      by (simp add: poll_time_dead_world float_mul_8_3 int_lt_float_def)
  qed
  have late2: "\<not> int_lt_float (poll_time dead_world 0 84 - 0) (float_mul 1000000000 float_8_3)"
    by (simp add: poll_time_dead_world float_mul_8_3 int_lt_float_def)
  have "wait_for_ready_or_shutdown dead_world (Some float_8_3) ''0.0.0.0:8080'' 0
          = Some (Inr False, poll_time dead_world 0 84)"
    using wait_for_ready_or_shutdown_polls[OF neg2, of float_8_3] nz2 time2 late2 by blast
  then have third: "wait_for_ready_or_shutdown dead_world (Some float_8_3) ''0.0.0.0:8080'' 0
          = Some (Inr False, 8400000000)"
    by (simp add: poll_time_dead_world)
  show ?thesis using first second third by simp
qed

text \<open>
  C10: a timeout of \<open>0\<close> behaves exactly like no timeout. The call is the same computation,
  it never returns \<^verbatim>\<open>False\<close>, and when no poll ever finds the event set or the probe doing
  anything but fail with \<^verbatim>\<open>RpcError\<close>, it never returns.
\<close>

theorem wait_zero_timeout_as_none:
  "wait_for_ready_or_shutdown w (Some 0) c t0 = wait_for_ready_or_shutdown w None c t0
   \<and> (\<forall>y. wait_for_ready_or_shutdown w (Some 0) c t0 = Some y \<longrightarrow> fst y \<noteq> Inr False)
   \<and> ((\<forall>k. \<not> is_set w (poll_time w t0 k) \<and> probe_fails w c (poll_time w t0 k))
        \<longrightarrow> wait_for_ready_or_shutdown w (Some 0) c t0 = None)"
proof (intro conjI impI allI)
  show "wait_for_ready_or_shutdown w (Some 0) c t0 = wait_for_ready_or_shutdown w None c t0"
    by (simp add: wait_zero wait_None)
next
  fix y assume "wait_for_ready_or_shutdown w (Some 0) c t0 = Some y"
  then show "fst y \<noteq> Inr False"
    by (simp add: wait_zero poll_loop_never_false)
next
  assume "\<forall>k. \<not> is_set w (poll_time w t0 k) \<and> probe_fails w c (poll_time w t0 k)"
  then show "wait_for_ready_or_shutdown w (Some 0) c t0 = None"
    unfolding wait_zero by (intro poll_loop_forever) simp
qed

theorem wait_zero_timeout_as_none_witness:
  "wait_for_ready_or_shutdown dead_world (Some 0) ''10.0.0.1:8080'' 5
     = wait_for_ready_or_shutdown dead_world None ''10.0.0.1:8080'' 5
   \<and> wait_for_ready_or_shutdown dead_world (Some 0) ''10.0.0.1:8080'' 5 = None"
  using wait_zero_timeout_as_none[of dead_world "''10.0.0.1:8080''" 5] dead_world_polls
  by blast

end
